theory Spec2Isabelle
  imports Main "HOL-Library.Word"
begin

unbundle bit_operations_syntax

section \<open>Common types and constants\<close>

text \<open>
  The header of common type definitions: \<open>word_t\<close> and \<open>addr_t\<close> are \<open>uint16_t\<close>,
  \<open>byte_t\<close> is \<open>uint8_t\<close>. Arithmetic on them is done in C++ after promotion to
  \<open>int\<close> (32 bits); where an intermediate value can leave the 16-bit range the model
  computes it in a \<open>32 word\<close> and truncates where the source does.
\<close>

type_synonym word_t = "16 word"
type_synonym byte_t = "8 word"
type_synonym addr_t = "16 word"

definition IO_CONSOLE_OUT :: addr_t where
  "IO_CONSOLE_OUT = 0xF000"

definition PROGRAM_START :: addr_t where
  "PROGRAM_START = 0x0000"

definition STACK_END :: addr_t where
  "STACK_END = 0xFFFF"

definition NUM_REGISTERS :: int where
  "NUM_REGISTERS = 8"

definition FLAG_ZERO :: word_t where
  "FLAG_ZERO = 0x0001"

definition FLAG_CARRY :: word_t where
  "FLAG_CARRY = 0x0002"

definition FLAG_NEGATIVE :: word_t where
  "FLAG_NEGATIVE = 0x0004"

definition FLAG_OVERFLOW :: word_t where
  "FLAG_OVERFLOW = 0x0008"

text \<open>The instruction format decoding macros; each result is stored in a \<open>byte_t\<close>.\<close>

definition GET_OPCODE :: "word_t \<Rightarrow> byte_t" where
  "GET_OPCODE instr = ucast (drop_bit 10 instr AND 0x3F)"

definition GET_RD :: "word_t \<Rightarrow> byte_t" where
  "GET_RD instr = ucast (drop_bit 7 instr AND 0x07)"

definition GET_RS :: "word_t \<Rightarrow> byte_t" where
  "GET_RS instr = ucast (drop_bit 4 instr AND 0x07)"

definition GET_RT :: "word_t \<Rightarrow> byte_t" where
  "GET_RT instr = ucast (instr AND 0x0F)"

definition GET_IMM4 :: "word_t \<Rightarrow> byte_t" where
  "GET_IMM4 instr = ucast (instr AND 0x0F)"

definition GET_IMM7 :: "word_t \<Rightarrow> byte_t" where
  "GET_IMM7 instr = ucast (instr AND 0x7F)"

text \<open>
  The sign extension functions return \<open>int16_t\<close>; every caller converts the result back
  to \<open>word_t\<close>, which keeps the bit pattern, so the model returns the 16-bit pattern.
\<close>

definition sign_extend_4bit :: "word_t \<Rightarrow> word_t" where
  "sign_extend_4bit val = (if val AND 0x08 \<noteq> 0 then val OR 0xFFF0 else val)"

definition sign_extend_7bit :: "word_t \<Rightarrow> word_t" where
  "sign_extend_7bit val = (if val AND 0x40 \<noteq> 0 then val OR 0xFF80 else val)"

section \<open>The emulator state\<close>

text \<open>
  What the emulator writes to the host's standard output: a character written to the
  console port, or one of the debug traces of the CPU. The text of a trace is left
  abstract; the event keeps the values it is formatted from.
\<close>

datatype out_event =
    Console_char byte_t
  | Debug_instruction nat word_t addr_t
  | Debug_halted
  | Debug_registers "word_t list" addr_t addr_t
  | Debug_flags word_t

text \<open>
  Modelled from the spec: the class declarations of \<open>Memory\<close> and \<open>CPU\<close> (their headers)
  are not among the sources. The fields are the ones the member functions use, with the
  types the spec's data model gives them: a backing array of 65536 bytes indexed by a
  16-bit address (every index is in range), eight word registers (indexed by a 3-bit
  value, so that the array has exactly eight cells), PC and SP addresses, a flag word
  and an instruction counter, whose C++ type is not known and which is modelled as an
  unbounded natural number. The \<open>Memory\<close> object the CPU refers to and the two host
  streams are part of the same state; \<open>cerr\<close> keeps the opcode of each
  "Unknown opcode" line.
\<close>

record machine =
  data :: "addr_t \<Rightarrow> byte_t"
  registers :: "3 word \<Rightarrow> word_t"
  pc :: addr_t
  sp :: addr_t
  flags :: word_t
  halted :: bool
  debug_mode :: bool
  instruction_count :: nat
  cout :: "out_event list"
  cerr :: "byte_t list"

section \<open>Memory\<close>

definition read_byte :: "machine \<Rightarrow> addr_t \<Rightarrow> byte_t" where
  "read_byte m address = data m address"

definition write_byte :: "addr_t \<Rightarrow> byte_t \<Rightarrow> machine \<Rightarrow> machine" where
  "write_byte address val m =
     (if address = IO_CONSOLE_OUT
      then m\<lparr>cout := cout m @ [Console_char val]\<rparr>
      else m\<lparr>data := (data m)(address := val)\<rparr>)"

definition read_word :: "machine \<Rightarrow> addr_t \<Rightarrow> word_t" where
  "read_word m address =
     (let low = read_byte m address;
          high = read_byte m (address + 1)
      in push_bit 8 (ucast high) OR ucast low)"

definition write_word :: "addr_t \<Rightarrow> word_t \<Rightarrow> machine \<Rightarrow> machine" where
  "write_word address val m =
     write_byte (address + 1) (ucast (drop_bit 8 val AND 0xFF))
       (write_byte address (ucast (val AND 0xFF)) m)"

section \<open>The ALU\<close>

text \<open>
  Every ALU function takes the flag word by reference and returns the result; the model
  takes the incoming flag word and returns the pair of the result and the outgoing
  flag word.
\<close>

definition clear_flags :: "word_t \<Rightarrow> word_t" where
  "clear_flags f = 0"

definition set_zero_flag :: "word_t \<Rightarrow> word_t \<Rightarrow> word_t" where
  "set_zero_flag result f = (if result = 0 then f OR FLAG_ZERO else f)"

definition set_negative_flag :: "word_t \<Rightarrow> word_t \<Rightarrow> word_t" where
  "set_negative_flag result f = (if result AND 0x8000 \<noteq> 0 then f OR FLAG_NEGATIVE else f)"

definition ALU_add :: "word_t \<Rightarrow> word_t \<Rightarrow> word_t \<Rightarrow> word_t \<times> word_t" where
  "ALU_add a b f0 =
     (let f = clear_flags f0;
          result32 = (ucast a :: 32 word) + (ucast b :: 32 word);
          result = (ucast result32 :: word_t);
          f = (if result32 > 0xFFFF then f OR FLAG_CARRY else f);
          a_neg = (a AND 0x8000 \<noteq> 0);
          b_neg = (b AND 0x8000 \<noteq> 0);
          r_neg = (result AND 0x8000 \<noteq> 0);
          f = (if (a_neg = b_neg) \<and> (a_neg \<noteq> r_neg) then f OR FLAG_OVERFLOW else f);
          f = set_zero_flag result f;
          f = set_negative_flag result f
      in (result, f))"

text \<open>
  \<open>sub\<close> computes the difference as a signed 32-bit value, which cannot overflow, and
  keeps its low 16 bits; these are the low 16 bits of the 32-bit word difference.
\<close>

definition ALU_sub :: "word_t \<Rightarrow> word_t \<Rightarrow> word_t \<Rightarrow> word_t \<times> word_t" where
  "ALU_sub a b f0 =
     (let f = clear_flags f0;
          result32 = (ucast a :: 32 word) - (ucast b :: 32 word);
          result = (ucast result32 :: word_t);
          f = (if a < b then f OR FLAG_CARRY else f);
          a_neg = (a AND 0x8000 \<noteq> 0);
          b_neg = (b AND 0x8000 \<noteq> 0);
          r_neg = (result AND 0x8000 \<noteq> 0);
          f = (if (a_neg \<noteq> b_neg) \<and> (a_neg \<noteq> r_neg) then f OR FLAG_OVERFLOW else f);
          f = set_zero_flag result f;
          f = set_negative_flag result f
      in (result, f))"

definition ALU_mul :: "word_t \<Rightarrow> word_t \<Rightarrow> word_t \<Rightarrow> word_t \<times> word_t" where
  "ALU_mul a b f0 =
     (let f = clear_flags f0;
          result32 = (ucast a :: 32 word) * (ucast b :: 32 word);
          result = (ucast (result32 AND 0xFFFF) :: word_t);
          f = (if result32 > 0xFFFF then f OR FLAG_CARRY else f);
          f = set_zero_flag result f;
          f = set_negative_flag result f
      in (result, f))"

definition ALU_div :: "word_t \<Rightarrow> word_t \<Rightarrow> word_t \<Rightarrow> word_t \<times> word_t" where
  "ALU_div a b f0 =
     (let f = clear_flags f0
      in if b = 0 then (0xFFFF, f OR FLAG_OVERFLOW)
         else
           (let result = a div b;
                f = set_zero_flag result f;
                f = set_negative_flag result f
            in (result, f)))"

definition ALU_and_op :: "word_t \<Rightarrow> word_t \<Rightarrow> word_t \<Rightarrow> word_t \<times> word_t" where
  "ALU_and_op a b f0 =
     (let f = clear_flags f0;
          result = a AND b;
          f = set_zero_flag result f;
          f = set_negative_flag result f
      in (result, f))"

definition ALU_or_op :: "word_t \<Rightarrow> word_t \<Rightarrow> word_t \<Rightarrow> word_t \<times> word_t" where
  "ALU_or_op a b f0 =
     (let f = clear_flags f0;
          result = a OR b;
          f = set_zero_flag result f;
          f = set_negative_flag result f
      in (result, f))"

definition ALU_xor_op :: "word_t \<Rightarrow> word_t \<Rightarrow> word_t \<Rightarrow> word_t \<times> word_t" where
  "ALU_xor_op a b f0 =
     (let f = clear_flags f0;
          result = a XOR b;
          f = set_zero_flag result f;
          f = set_negative_flag result f
      in (result, f))"

definition ALU_not_op :: "word_t \<Rightarrow> word_t \<Rightarrow> word_t \<times> word_t" where
  "ALU_not_op a f0 =
     (let f = clear_flags f0;
          result = NOT a;
          f = set_zero_flag result f;
          f = set_negative_flag result f
      in (result, f))"

text \<open>
  In \<open>shl\<close> and \<open>shr\<close> the mask \<open>1 << n\<close> and the shifted value are \<open>int\<close>s; the
  shifted value is truncated to 16 bits when it is stored in \<open>result\<close>.
\<close>

definition ALU_shl :: "word_t \<Rightarrow> word_t \<Rightarrow> word_t \<Rightarrow> word_t \<times> word_t" where
  "ALU_shl a shift f0 =
     (let f = clear_flags f0
      in if shift \<ge> 16
         then
           (let f = (if shift = 16 \<and> a AND 0x0001 \<noteq> 0 then f OR FLAG_CARRY else f);
                f = set_zero_flag 0 f
            in (0, f))
         else
           (let f = (if shift > 0 \<and>
                        (ucast a :: 32 word) AND push_bit (16 - unat shift) 1 \<noteq> 0
                     then f OR FLAG_CARRY else f);
                result = (ucast (push_bit (unat shift) (ucast a :: 32 word)) :: word_t);
                f = set_zero_flag result f;
                f = set_negative_flag result f
            in (result, f)))"

definition ALU_shr :: "word_t \<Rightarrow> word_t \<Rightarrow> word_t \<Rightarrow> word_t \<times> word_t" where
  "ALU_shr a shift f0 =
     (let f = clear_flags f0
      in if shift \<ge> 16
         then
           (let f = (if shift = 16 \<and> a AND 0x8000 \<noteq> 0 then f OR FLAG_CARRY else f);
                f = set_zero_flag 0 f
            in (0, f))
         else
           (let f = (if shift > 0 \<and>
                        (ucast a :: 32 word) AND push_bit (unat shift - 1) 1 \<noteq> 0
                     then f OR FLAG_CARRY else f);
                result = (ucast (drop_bit (unat shift) (ucast a :: 32 word)) :: word_t);
                f = set_zero_flag result f;
                f = set_negative_flag result f
            in (result, f)))"

definition ALU_compare :: "word_t \<Rightarrow> word_t \<Rightarrow> word_t \<Rightarrow> word_t \<times> word_t" where
  "ALU_compare a b f0 = (0, snd (ALU_sub a b f0))"

section \<open>The CPU\<close>

text \<open>
  Modelled from the spec: the header that declares the opcode constants \<open>OP_NOP\<close> ...
  \<open>OP_HALT\<close> is not among the sources, and the spec leaves their numeric values to the
  implementation. The datatype has one constructor for each case label of the switch
  in \<open>execute_instruction\<close>; the numbering is a parameter \<open>optab\<close> of the model, which
  maps the 6-bit opcode field to the case label with that value, or to \<open>None\<close> where
  the switch takes its default branch.
\<close>

datatype opcode =
    OP_NOP | OP_MOVI | OP_LOAD_IND | OP_LOAD_DIR | OP_STORE_IND | OP_STORE_DIR
  | OP_ADD | OP_ADDI | OP_SUB | OP_SUBI | OP_MUL | OP_DIV | OP_INC | OP_DEC
  | OP_AND | OP_ANDI | OP_OR | OP_ORI | OP_XOR | OP_NOT
  | OP_SHL | OP_SHLI | OP_SHR | OP_SHRI
  | OP_CMP | OP_CMPI
  | OP_JMP | OP_JZ | OP_JNZ | OP_JC | OP_JNC | OP_JN | OP_CALL | OP_RET
  | OP_PUSH | OP_POP
  | OP_HALT

type_synonym optable = "byte_t \<Rightarrow> opcode option"

text \<open>
  The field \<open>rt\<close> has four bits, and \<open>registers[rt]\<close> with \<open>rt\<close> from 8 to 15 reads past
  the end of the register array, which C++ leaves undefined. The model stops there
  with a fault instead of inventing a value.
\<close>

datatype fault = Register_index_out_of_bounds

definition reset :: "machine \<Rightarrow> machine" where
  "reset s = s\<lparr>registers := (\<lambda>i. 0), pc := PROGRAM_START, sp := STACK_END, flags := 0,
               halted := False, debug_mode := False, instruction_count := 0\<rparr>"

definition get_register :: "machine \<Rightarrow> int \<Rightarrow> word_t" where
  "get_register s reg =
     (if reg \<ge> 0 \<and> reg < NUM_REGISTERS then registers s (word_of_int reg) else 0)"

definition push :: "word_t \<Rightarrow> machine \<Rightarrow> machine" where
  "push val s = (let s1 = s\<lparr>sp := sp s - 2\<rparr> in write_word (sp s1) val s1)"

definition pop :: "machine \<Rightarrow> word_t \<times> machine" where
  "pop s = (let val = read_word s (sp s) in (val, s\<lparr>sp := sp s + 2\<rparr>))"

definition halt :: "machine \<Rightarrow> machine" where
  "halt s = s\<lparr>halted := True\<rparr>"

text \<open>Reading and writing a register through a field of the instruction word.\<close>

definition reg :: "machine \<Rightarrow> byte_t \<Rightarrow> word_t" where
  "reg s i = registers s (ucast i)"

definition set_reg :: "byte_t \<Rightarrow> word_t \<Rightarrow> machine \<Rightarrow> machine" where
  "set_reg i v s = s\<lparr>registers := (registers s)(ucast i := v)\<rparr>"

text \<open>\<open>registers[rd] = ALU::op(..., flags)\<close>: the call updates the flag word, the result is stored.\<close>

definition alu_store :: "byte_t \<Rightarrow> word_t \<times> word_t \<Rightarrow> machine \<Rightarrow> machine" where
  "alu_store rd rf s = set_reg rd (fst rf) (s\<lparr>flags := snd rf\<rparr>)"

definition cond_jump :: "bool \<Rightarrow> machine \<Rightarrow> machine" where
  "cond_jump taken s =
     (let address = read_word s (pc s);
          s1 = s\<lparr>pc := pc s + 2\<rparr>
      in if taken then s1\<lparr>pc := address\<rparr> else s1)"

definition execute_instruction :: "optable \<Rightarrow> word_t \<Rightarrow> machine \<Rightarrow> fault + machine" where
  "execute_instruction optab instruction s =
     (let opcode = GET_OPCODE instruction;
          rd = GET_RD instruction;
          rs = GET_RS instruction;
          rt = GET_RT instruction;
          imm4 = GET_IMM4 instruction;
          imm7 = GET_IMM7 instruction
      in case optab opcode of
        Some OP_NOP \<Rightarrow> Inr (if rd \<noteq> rs then set_reg rd (reg s rs) s else s)
      | Some OP_MOVI \<Rightarrow> Inr (set_reg rd (sign_extend_7bit (ucast imm7)) s)
      | Some OP_LOAD_IND \<Rightarrow> Inr (set_reg rd (read_word s (reg s rs)) s)
      | Some OP_LOAD_DIR \<Rightarrow>
          (let address = read_word s (pc s);
               s1 = s\<lparr>pc := pc s + 2\<rparr>
           in Inr (set_reg rd (read_word s1 address) s1))
      | Some OP_STORE_IND \<Rightarrow> Inr (write_word (reg s rd) (reg s rs) s)
      | Some OP_STORE_DIR \<Rightarrow>
          (let address = read_word s (pc s);
               s1 = s\<lparr>pc := pc s + 2\<rparr>
           in Inr (write_word address (reg s1 rs) s1))
      | Some OP_ADD \<Rightarrow>
          (if rt < 8 then Inr (alu_store rd (ALU_add (reg s rs) (reg s rt) (flags s)) s)
           else Inl Register_index_out_of_bounds)
      | Some OP_ADDI \<Rightarrow>
          Inr (alu_store rd (ALU_add (reg s rs) (sign_extend_4bit (ucast imm4)) (flags s)) s)
      | Some OP_SUB \<Rightarrow>
          (if rt < 8 then Inr (alu_store rd (ALU_sub (reg s rs) (reg s rt) (flags s)) s)
           else Inl Register_index_out_of_bounds)
      | Some OP_SUBI \<Rightarrow>
          Inr (alu_store rd (ALU_sub (reg s rs) (sign_extend_4bit (ucast imm4)) (flags s)) s)
      | Some OP_MUL \<Rightarrow>
          (if rt < 8 then Inr (alu_store rd (ALU_mul (reg s rs) (reg s rt) (flags s)) s)
           else Inl Register_index_out_of_bounds)
      | Some OP_DIV \<Rightarrow>
          (if rt < 8 then Inr (alu_store rd (ALU_div (reg s rs) (reg s rt) (flags s)) s)
           else Inl Register_index_out_of_bounds)
      | Some OP_INC \<Rightarrow> Inr (alu_store rd (ALU_add (reg s rd) 1 (flags s)) s)
      | Some OP_DEC \<Rightarrow> Inr (alu_store rd (ALU_sub (reg s rd) 1 (flags s)) s)
      | Some OP_AND \<Rightarrow>
          (if rt < 8 then Inr (alu_store rd (ALU_and_op (reg s rs) (reg s rt) (flags s)) s)
           else Inl Register_index_out_of_bounds)
      | Some OP_ANDI \<Rightarrow> Inr (alu_store rd (ALU_and_op (reg s rs) (ucast imm4) (flags s)) s)
      | Some OP_OR \<Rightarrow>
          (if rt < 8 then Inr (alu_store rd (ALU_or_op (reg s rs) (reg s rt) (flags s)) s)
           else Inl Register_index_out_of_bounds)
      | Some OP_ORI \<Rightarrow> Inr (alu_store rd (ALU_or_op (reg s rs) (ucast imm4) (flags s)) s)
      | Some OP_XOR \<Rightarrow>
          (if rt < 8 then Inr (alu_store rd (ALU_xor_op (reg s rs) (reg s rt) (flags s)) s)
           else Inl Register_index_out_of_bounds)
      | Some OP_NOT \<Rightarrow> Inr (alu_store rd (ALU_not_op (reg s rs) (flags s)) s)
      | Some OP_SHL \<Rightarrow>
          (if rt < 8 then Inr (alu_store rd (ALU_shl (reg s rs) (reg s rt) (flags s)) s)
           else Inl Register_index_out_of_bounds)
      | Some OP_SHLI \<Rightarrow> Inr (alu_store rd (ALU_shl (reg s rs) (ucast imm4) (flags s)) s)
      | Some OP_SHR \<Rightarrow>
          (if rt < 8 then Inr (alu_store rd (ALU_shr (reg s rs) (reg s rt) (flags s)) s)
           else Inl Register_index_out_of_bounds)
      | Some OP_SHRI \<Rightarrow> Inr (alu_store rd (ALU_shr (reg s rs) (ucast imm4) (flags s)) s)
      | Some OP_CMP \<Rightarrow>
          (if rt < 8 then Inr (s\<lparr>flags := snd (ALU_compare (reg s rs) (reg s rt) (flags s))\<rparr>)
           else Inl Register_index_out_of_bounds)
      | Some OP_CMPI \<Rightarrow>
          Inr (s\<lparr>flags := snd (ALU_compare (reg s rs) (sign_extend_4bit (ucast imm4)) (flags s))\<rparr>)
      | Some OP_JMP \<Rightarrow> (let address = read_word s (pc s) in Inr (s\<lparr>pc := address\<rparr>))
      | Some OP_JZ \<Rightarrow> Inr (cond_jump (flags s AND FLAG_ZERO \<noteq> 0) s)
      | Some OP_JNZ \<Rightarrow> Inr (cond_jump (\<not> (flags s AND FLAG_ZERO \<noteq> 0)) s)
      | Some OP_JC \<Rightarrow> Inr (cond_jump (flags s AND FLAG_CARRY \<noteq> 0) s)
      | Some OP_JNC \<Rightarrow> Inr (cond_jump (\<not> (flags s AND FLAG_CARRY \<noteq> 0)) s)
      | Some OP_JN \<Rightarrow> Inr (cond_jump (flags s AND FLAG_NEGATIVE \<noteq> 0) s)
      | Some OP_CALL \<Rightarrow>
          (let address = read_word s (pc s);
               s1 = s\<lparr>pc := pc s + 2\<rparr>;
               s2 = push (pc s1) s1
           in Inr (s2\<lparr>pc := address\<rparr>))
      | Some OP_RET \<Rightarrow> (let (val, s1) = pop s in Inr (s1\<lparr>pc := val\<rparr>))
      | Some OP_PUSH \<Rightarrow> Inr (push (reg s rs) s)
      | Some OP_POP \<Rightarrow> (let (val, s1) = pop s in Inr (set_reg rd val s1))
      | Some OP_HALT \<Rightarrow>
          (let s1 = halt s
           in Inr (if debug_mode s1 then s1\<lparr>cout := cout s1 @ [Debug_halted]\<rparr> else s1))
      | None \<Rightarrow> Inr (halt (s\<lparr>cerr := cerr s @ [opcode]\<rparr>)))"

definition print_registers :: "machine \<Rightarrow> machine" where
  "print_registers s =
     s\<lparr>cout := cout s @ [Debug_registers (map (registers s) [0, 1, 2, 3, 4, 5, 6, 7]) (pc s) (sp s)]\<rparr>"

definition print_flags :: "machine \<Rightarrow> machine" where
  "print_flags s = s\<lparr>cout := cout s @ [Debug_flags (flags s)]\<rparr>"

definition fetch_decode_execute :: "optable \<Rightarrow> machine \<Rightarrow> fault + machine" where
  "fetch_decode_execute optab s =
     (let instruction = read_word s (pc s);
          current_pc = pc s;
          s1 = s\<lparr>pc := pc s + 2\<rparr>;
          s2 = (if debug_mode s1
                then s1\<lparr>cout := cout s1 @
                        [Debug_instruction (instruction_count s1) instruction current_pc]\<rparr>
                else s1)
      in case execute_instruction optab instruction s2 of
           Inl e \<Rightarrow> Inl e
         | Inr s3 \<Rightarrow> Inr (if debug_mode s3 then print_flags (print_registers s3) else s3))"

definition step :: "optable \<Rightarrow> machine \<Rightarrow> fault + machine" where
  "step optab s =
     (if halted s then Inr s
      else case fetch_decode_execute optab s of
             Inl e \<Rightarrow> Inl e
           | Inr s1 \<Rightarrow> Inr (s1\<lparr>instruction_count := instruction_count s1 + 1\<rparr>))"

section \<open>Concrete machines\<close>

text \<open>
  The state after the constructors \<open>Memory()\<close>, which clears the backing array, and
  \<open>CPU(mem)\<close>, which calls \<open>reset\<close>, with nothing written to the host streams yet.
\<close>

definition power_on :: machine where
  "power_on = \<lparr>data = (\<lambda>a. 0), registers = (\<lambda>i. 0), pc = PROGRAM_START, sp = STACK_END,
                flags = 0, halted = False, debug_mode = False, instruction_count = 0,
                cout = [], cerr = []\<rparr>"

text \<open>
  Modelled from the spec: the opcode numbering is missing from the sources; the spec
  fixes \<open>NOP\<close> as opcode 0x00 and leaves the other values to the implementation.
  \<open>sample_optab\<close> is one such numbering (the case labels in the order of the switch),
  used only to run the model on concrete programs.
\<close>

definition sample_optab :: optable where
  "sample_optab = map_of
     [(0, OP_NOP), (1, OP_MOVI), (2, OP_LOAD_IND), (3, OP_LOAD_DIR), (4, OP_STORE_IND),
      (5, OP_STORE_DIR), (6, OP_ADD), (7, OP_ADDI), (8, OP_SUB), (9, OP_SUBI),
      (10, OP_MUL), (11, OP_DIV), (12, OP_INC), (13, OP_DEC), (14, OP_AND),
      (15, OP_ANDI), (16, OP_OR), (17, OP_ORI), (18, OP_XOR), (19, OP_NOT),
      (20, OP_SHL), (21, OP_SHLI), (22, OP_SHR), (23, OP_SHRI), (24, OP_CMP),
      (25, OP_CMPI), (26, OP_JMP), (27, OP_JZ), (28, OP_JNZ), (29, OP_JC),
      (30, OP_JNC), (31, OP_JN), (32, OP_CALL), (33, OP_RET), (34, OP_PUSH),
      (35, OP_POP), (36, OP_HALT)]"

text \<open>
  Concrete programs under \<open>sample_optab\<close>, loaded into a cleared memory:
  \<^item> \<open>halt_prog\<close>: \<open>HALT\<close> (0x9000) at 0x0000;
  \<^item> \<open>unknown_prog\<close>: the word 0xFC00 at 0x0000, whose opcode field 63 has no case label;
  \<^item> \<open>jz_prog\<close>: \<open>JZ 0x0140\<close> (0x6C00, 0x0140) at 0x0000;
  \<^item> \<open>div_prog\<close>: \<open>DIV R0, R1, R2\<close> (0x2C12) at 0x0000 with R1 = 0x1234 and R2 = 0;
  \<^item> \<open>call_prog\<close>: \<open>CALL 0x0010\<close> (0x8000, 0x0010) at 0x0000 and \<open>RET\<close> (0x8400) at
    0x0010; \<open>call_prog_after\<close> is the state after the \<open>CALL\<close>;
  \<^item> \<open>trap_call\<close>: \<open>CALL 0x0200\<close> at 0x0100 with SP = 0xF001, the value SP has after
    2047 pushes from its reset value; \<open>trap_call_after\<close> is the state after the \<open>CALL\<close>.
\<close>

text \<open>
  \<open>console_seeded\<close> is a cleared memory whose backing byte at the console port holds
  0x5A, as after \<open>load_program\<close> has copied an image over that address (it writes the
  array directly, not through \<open>write_byte\<close>).
\<close>

definition console_seeded :: machine where
  "console_seeded = power_on\<lparr>data := (\<lambda>a. 0)(0xF000 := 0x5A)\<rparr>"

definition halt_prog :: machine where
  "halt_prog = power_on\<lparr>data := (\<lambda>a. 0)(0 := 0x00, 1 := 0x90)\<rparr>"

definition unknown_prog :: machine where
  "unknown_prog = power_on\<lparr>data := (\<lambda>a. 0)(0 := 0x00, 1 := 0xFC)\<rparr>"

definition jz_prog :: machine where
  "jz_prog = power_on\<lparr>data := (\<lambda>a. 0)(0 := 0x00, 1 := 0x6C, 2 := 0x40, 3 := 0x01)\<rparr>"

definition div_prog :: machine where
  "div_prog = power_on\<lparr>data := (\<lambda>a. 0)(0 := 0x12, 1 := 0x2C),
                        registers := (\<lambda>i. 0)(1 := 0x1234)\<rparr>"

definition call_prog :: machine where
  "call_prog = power_on\<lparr>data := (\<lambda>a. 0)(0 := 0x00, 1 := 0x80, 2 := 0x10, 3 := 0x00,
                                              0x10 := 0x00, 0x11 := 0x84)\<rparr>"

definition call_prog_after :: machine where
  "call_prog_after = call_prog\<lparr>data := (data call_prog)(0xFFFD := 0x04, 0xFFFE := 0x00),
                                pc := 0x0010, sp := 0xFFFD, instruction_count := 1\<rparr>"

definition trap_call :: machine where
  "trap_call = power_on\<lparr>data := (\<lambda>a. 0)(0x100 := 0x00, 0x101 := 0x80, 0x102 := 0x00,
                                              0x103 := 0x02),
                         pc := 0x0100, sp := 0xF001\<rparr>"

definition trap_call_after :: machine where
  "trap_call_after = trap_call\<lparr>data := (data trap_call)(0xEFFF := 0x04),
                                pc := 0x0200, sp := 0xEFFF, instruction_count := 1,
                                cout := [Console_char 0x01]\<rparr>"

section \<open>Auxiliary facts\<close>

lemmas flag_defs = FLAG_ZERO_def FLAG_CARRY_def FLAG_NEGATIVE_def FLAG_OVERFLOW_def

lemma byte_mask: "(0xFF :: 16 word) = mask 8"
  by (simp add: mask_eq_exp_minus_1)

lemma low_byte:
  "(ucast (ucast ((W :: 16 word) AND 0xFF) :: 8 word) :: 16 word) = W AND 0xFF"
  unfolding byte_mask by (rule bit_word_eqI) (auto simp add: bit_simps)

lemma high_byte:
  "(ucast (ucast (drop_bit 8 (W :: 16 word) AND 0xFF) :: 8 word) :: 16 word) =
     drop_bit 8 W AND 0xFF"
  unfolding byte_mask by (rule bit_word_eqI) (auto simp add: bit_simps)

lemma join_bytes:
  "push_bit 8 (ucast (ucast (drop_bit 8 (W :: 16 word) AND 0xFF) :: 8 word)) OR
     ucast (ucast (W AND 0xFF) :: 8 word) = W"
  unfolding byte_mask by (rule bit_word_eqI) (auto simp add: bit_simps)

lemma ucast_32_16_id: "(ucast (ucast (a :: 16 word) :: 32 word) :: 16 word) = a"
  by (simp add: ucast_up_ucast_id is_up)

text \<open>The backing array after a word write: each of the two bytes is stored unless it
  falls on the console port.\<close>

lemma data_write_word:
  "data (write_word A W m) =
     (\<lambda>x. if x = A + 1 \<and> A + 1 \<noteq> IO_CONSOLE_OUT then ucast (drop_bit 8 W AND 0xFF)
          else if x = A \<and> A \<noteq> IO_CONSOLE_OUT then ucast (W AND 0xFF)
          else data m x)"
  by (auto simp add: write_word_def write_byte_def fun_eq_iff)

lemma cout_write_word:
  "cout (write_word A W m) =
     cout m @ (if A = IO_CONSOLE_OUT then [Console_char (ucast (W AND 0xFF))] else []) @
       (if A + 1 = IO_CONSOLE_OUT then [Console_char (ucast (drop_bit 8 W AND 0xFF))] else [])"
  by (simp add: write_word_def write_byte_def)

lemma ALU_div_zero: "ALU_div a 0 f = (0xFFFF, FLAG_OVERFLOW)"
  by (simp add: ALU_div_def clear_flags_def)

lemma ALU_shl_zero: "ALU_shl a 0 f = (a, set_negative_flag a (set_zero_flag a 0))"
  by (simp add: ALU_shl_def clear_flags_def Let_def ucast_32_16_id)

subsection \<open>Frame rules\<close>

lemma read_word_frame [simp]:
  "read_word (s\<lparr>pc := p\<rparr>) a = read_word s a"
  "read_word (s\<lparr>cout := c\<rparr>) a = read_word s a"
  "read_word (s\<lparr>sp := q\<rparr>) a = read_word s a"
  "read_word (s\<lparr>flags := f\<rparr>) a = read_word s a"
  "read_word (s\<lparr>registers := r\<rparr>) a = read_word s a"
  "read_word (s\<lparr>halted := h\<rparr>) a = read_word s a"
  "read_word (s\<lparr>instruction_count := n\<rparr>) a = read_word s a"
  by (simp_all add: read_word_def read_byte_def)

lemma read_word_cong: "data s = data t \<Longrightarrow> read_word s a = read_word t a"
  by (simp add: read_word_def read_byte_def)

lemma read_word_write_word:
  "A \<noteq> IO_CONSOLE_OUT \<Longrightarrow> A + 1 \<noteq> IO_CONSOLE_OUT \<Longrightarrow> read_word (write_word A W m) A = W"
  by (simp add: read_word_def read_byte_def data_write_word join_bytes)

lemma write_word_frame:
  "pc (write_word A W m) = pc m" "sp (write_word A W m) = sp m"
  "registers (write_word A W m) = registers m" "flags (write_word A W m) = flags m"
  "halted (write_word A W m) = halted m" "debug_mode (write_word A W m) = debug_mode m"
  "instruction_count (write_word A W m) = instruction_count m"
  "cerr (write_word A W m) = cerr m"
  by (simp_all add: write_word_def write_byte_def)

lemma write_word_data_frame:
  "data (write_word A W (s\<lparr>pc := p\<rparr>)) = data (write_word A W s)"
  "data (write_word A W (s\<lparr>sp := q\<rparr>)) = data (write_word A W s)"
  "data (write_word A W (s\<lparr>cout := c\<rparr>)) = data (write_word A W s)"
  by (simp_all add: write_word_def write_byte_def)

lemma push_simps:
  "sp (push v s) = sp s - 2"
  "pc (push v s) = pc s" "registers (push v s) = registers s" "flags (push v s) = flags s"
  "halted (push v s) = halted s" "debug_mode (push v s) = debug_mode s"
  "instruction_count (push v s) = instruction_count s"
  "data (push v s) = data (write_word (sp s - 2) v s)"
  by (simp_all add: push_def Let_def write_word_frame write_word_data_frame)

lemma alu_store_simps:
  "reg (alu_store rd rf s) rd = fst rf" "flags (alu_store rd rf s) = snd rf"
  "pc (alu_store rd rf s) = pc s" "halted (alu_store rd rf s) = halted s"
  "debug_mode (alu_store rd rf s) = debug_mode s"
  "instruction_count (alu_store rd rf s) = instruction_count s"
  "data (alu_store rd rf s) = data s" "sp (alu_store rd rf s) = sp s"
  by (simp_all add: alu_store_def set_reg_def reg_def)

lemma reg_frame:
  "reg (s\<lparr>pc := p\<rparr>) i = reg s i" "reg (s\<lparr>cout := c\<rparr>) i = reg s i"
  "reg (s\<lparr>instruction_count := n\<rparr>) i = reg s i"
  by (simp_all add: reg_def)

subsection \<open>One step of a running CPU, by opcode\<close>

lemma step_running:
  "\<not> halted s \<Longrightarrow> step optab s =
     (case execute_instruction optab (read_word s (pc s))
             (if debug_mode s
              then s\<lparr>pc := pc s + 2, cout := cout s @
                      [Debug_instruction (instruction_count s) (read_word s (pc s)) (pc s)]\<rparr>
              else s\<lparr>pc := pc s + 2\<rparr>) of
        Inl e \<Rightarrow> Inl e
      | Inr s3 \<Rightarrow> Inr ((if debug_mode s3 then print_flags (print_registers s3) else s3)
                      \<lparr>instruction_count := instruction_count s3 + 1\<rparr>))"
  by (cases "debug_mode s")
    (auto simp add: step_def fetch_decode_execute_def Let_def print_flags_def
      print_registers_def split: sum.splits)

lemma exec_HALT:
  "optab (GET_OPCODE i) = Some OP_HALT \<Longrightarrow>
   execute_instruction optab i s =
     Inr (if debug_mode s then s\<lparr>halted := True, cout := cout s @ [Debug_halted]\<rparr>
          else s\<lparr>halted := True\<rparr>)"
  by (simp add: execute_instruction_def halt_def Let_def)

lemma exec_unknown:
  "optab (GET_OPCODE i) = None \<Longrightarrow>
   execute_instruction optab i s = Inr (s\<lparr>halted := True, cerr := cerr s @ [GET_OPCODE i]\<rparr>)"
  by (simp add: execute_instruction_def halt_def Let_def)

lemma exec_cond_jumps:
  "optab (GET_OPCODE i) = Some OP_JZ \<Longrightarrow>
     execute_instruction optab i s = Inr (cond_jump (flags s AND FLAG_ZERO \<noteq> 0) s)"
  "optab (GET_OPCODE i) = Some OP_JNZ \<Longrightarrow>
     execute_instruction optab i s = Inr (cond_jump (\<not> (flags s AND FLAG_ZERO \<noteq> 0)) s)"
  "optab (GET_OPCODE i) = Some OP_JC \<Longrightarrow>
     execute_instruction optab i s = Inr (cond_jump (flags s AND FLAG_CARRY \<noteq> 0) s)"
  "optab (GET_OPCODE i) = Some OP_JNC \<Longrightarrow>
     execute_instruction optab i s = Inr (cond_jump (\<not> (flags s AND FLAG_CARRY \<noteq> 0)) s)"
  "optab (GET_OPCODE i) = Some OP_JN \<Longrightarrow>
     execute_instruction optab i s = Inr (cond_jump (flags s AND FLAG_NEGATIVE \<noteq> 0) s)"
  by (simp_all add: execute_instruction_def Let_def)

lemma exec_CALL:
  "optab (GET_OPCODE i) = Some OP_CALL \<Longrightarrow>
   execute_instruction optab i s =
     Inr ((push (pc s + 2) (s\<lparr>pc := pc s + 2\<rparr>))\<lparr>pc := read_word s (pc s)\<rparr>)"
  by (simp add: execute_instruction_def Let_def)

lemma exec_RET:
  "optab (GET_OPCODE i) = Some OP_RET \<Longrightarrow>
   execute_instruction optab i s = Inr (s\<lparr>sp := sp s + 2, pc := read_word s (sp s)\<rparr>)"
  by (simp add: execute_instruction_def Let_def pop_def)

lemma exec_DIV:
  "optab (GET_OPCODE i) = Some OP_DIV \<Longrightarrow> GET_RT i < 8 \<Longrightarrow>
   execute_instruction optab i s =
     Inr (alu_store (GET_RD i) (ALU_div (reg s (GET_RS i)) (reg s (GET_RT i)) (flags s)) s)"
  by (simp add: execute_instruction_def Let_def)

lemma step_CALL:
  assumes "\<not> halted s" and "optab (GET_OPCODE (read_word s (pc s))) = Some OP_CALL"
  shows "\<exists>s1. step optab s = Inr s1 \<and> sp s1 = sp s - 2 \<and>
           pc s1 = read_word s (pc s + 2) \<and> \<not> halted s1 \<and>
           data s1 = data (write_word (sp s - 2) (pc s + 4) s) \<and>
           registers s1 = registers s \<and> flags s1 = flags s"
  using assms
  by (simp add: step_running exec_CALL print_flags_def print_registers_def push_simps
      write_word_data_frame add.commute)

lemma step_RET:
  assumes "\<not> halted s" and "optab (GET_OPCODE (read_word s (pc s))) = Some OP_RET"
  shows "\<exists>s1. step optab s = Inr s1 \<and> sp s1 = sp s + 2 \<and> pc s1 = read_word s (sp s)"
  using assms
  by (simp add: step_running exec_RET print_flags_def print_registers_def)

subsection \<open>The concrete programs\<close>

lemma sample_optab_simps:
  "sample_optab 36 = Some OP_HALT"
  "sample_optab 27 = Some OP_JZ"
  "sample_optab 32 = Some OP_CALL"
  "sample_optab 33 = Some OP_RET"
  "sample_optab 11 = Some OP_DIV"
  "sample_optab 63 = None"
  by (simp_all add: sample_optab_def)

lemma decode_simps:
  "GET_OPCODE 0x6C00 = 27" "GET_OPCODE 0x9000 = 36"
  "GET_OPCODE 0x2C12 = 11" "GET_RD 0x2C12 = 0" "GET_RS 0x2C12 = 1" "GET_RT 0x2C12 = 2"
  "GET_OPCODE 0x8000 = 32" "GET_OPCODE 0x8400 = 33" "GET_OPCODE 0xFC00 = 63"
  by (simp_all add: GET_OPCODE_def GET_RD_def GET_RS_def GET_RT_def)

lemma console_seeded_simps:
  "data console_seeded 0xF000 = 0x5A" "cout console_seeded = []"
  "read_byte console_seeded 0xF000 = 0x5A"
  by (simp_all add: console_seeded_def power_on_def read_byte_def)

lemma halt_prog_simps:
  "\<not> halted halt_prog" "pc halt_prog = 0" "read_word halt_prog 0 = 0x9000"
  "reset halt_prog = halt_prog" "instruction_count halt_prog = 0"
  by (simp_all add: halt_prog_def read_word_def read_byte_def power_on_def PROGRAM_START_def
      reset_def)

lemma unknown_prog_simps:
  "\<not> halted unknown_prog" "pc unknown_prog = 0" "read_word unknown_prog 0 = 0xFC00"
  "cerr unknown_prog = []"
  by (simp_all add: unknown_prog_def read_word_def read_byte_def power_on_def
      PROGRAM_START_def)

lemma jz_prog_simps:
  "\<not> halted jz_prog" "pc jz_prog = 0" "flags jz_prog = 0"
  "read_word jz_prog 0 = 0x6C00" "read_word jz_prog 2 = 0x0140"
  by (simp_all add: jz_prog_def read_word_def read_byte_def power_on_def PROGRAM_START_def)

lemma div_prog_simps:
  "\<not> halted div_prog" "pc div_prog = 0" "read_word div_prog 0 = 0x2C12"
  "reg div_prog 1 = 0x1234" "reg div_prog 2 = 0"
  by (simp_all add: div_prog_def read_word_def read_byte_def power_on_def PROGRAM_START_def
      reg_def)

lemma call_prog_simps:
  "\<not> halted call_prog" "pc call_prog = 0" "sp call_prog = 0xFFFF"
  "read_word call_prog 0 = 0x8000" "read_word call_prog 2 = 0x0010"
  "\<not> debug_mode call_prog" "instruction_count call_prog = 0"
  by (simp_all add: call_prog_def read_word_def read_byte_def power_on_def PROGRAM_START_def
      STACK_END_def)

lemma call_prog_after_simps:
  "\<not> halted call_prog_after" "pc call_prog_after = 0x10" "sp call_prog_after = 0xFFFD"
  "read_word call_prog_after 0x10 = 0x8400" "read_word call_prog_after 0xFFFD = 0x0004"
  by (simp_all add: call_prog_after_def call_prog_def read_word_def read_byte_def power_on_def)

lemma step_call_prog: "step sample_optab call_prog = Inr call_prog_after"
  by (simp add: step_running exec_CALL call_prog_simps decode_simps sample_optab_simps
      push_def Let_def write_word_def write_byte_def IO_CONSOLE_OUT_def call_prog_after_def)

lemma trap_call_simps:
  "\<not> halted trap_call" "pc trap_call = 0x100" "sp trap_call = 0xF001"
  "read_word trap_call 0x100 = 0x8000" "read_word trap_call 0x102 = 0x0200"
  "\<not> debug_mode trap_call" "instruction_count trap_call = 0" "cout trap_call = []"
  by (simp_all add: trap_call_def read_word_def read_byte_def power_on_def)

lemma trap_call_after_simps:
  "sp trap_call_after = 0xEFFF" "read_word trap_call_after 0xEFFF = 0x0004"
  by (simp_all add: trap_call_after_def trap_call_def read_word_def read_byte_def power_on_def)

lemma step_trap_call: "step sample_optab trap_call = Inr trap_call_after"
  by (simp add: step_running exec_CALL trap_call_simps decode_simps sample_optab_simps
      push_def Let_def write_word_def write_byte_def IO_CONSOLE_OUT_def trap_call_after_def)

section \<open>Memory: byte order and the console port\<close>

text \<open>
  C2, as amended. The claim as stated (for every address, a word write followed by
  byte reads gives back the two bytes of the word) fails where a byte of the word falls
  on the console port 0xF000, which \<open>write_byte\<close> sends to the console instead of the
  backing array. What holds: after writing the word W at address A, the byte at A is
  \<open>W & 0xFF\<close> provided A is not 0xF000, and the byte at A + 1 (modulo 65536) is
  \<open>(W >> 8) & 0xFF\<close> provided A + 1 is not 0xF000; a byte of the word that falls on
  0xF000 is appended to the console output and the backing byte there keeps its prior
  value; when neither byte falls on 0xF000 the console output is unchanged.
\<close>

theorem write_word_little_endian:
  "(A \<noteq> 0xF000 \<longrightarrow> ucast (read_byte (write_word A W m) A) = W AND 0xFF) \<and>
   (A + 1 \<noteq> 0xF000 \<longrightarrow>
      ucast (read_byte (write_word A W m) (A + 1)) = drop_bit 8 W AND 0xFF) \<and>
   (A = 0xF000 \<longrightarrow>
      read_byte (write_word A W m) A = read_byte m A \<and>
      cout (write_word A W m) = cout m @ [Console_char (ucast (W AND 0xFF))]) \<and>
   (A + 1 = 0xF000 \<longrightarrow>
      read_byte (write_word A W m) (A + 1) = read_byte m (A + 1) \<and>
      cout (write_word A W m) = cout m @ [Console_char (ucast (drop_bit 8 W AND 0xFF))]) \<and>
   (A \<noteq> 0xF000 \<and> A + 1 \<noteq> 0xF000 \<longrightarrow> cout (write_word A W m) = cout m)"
  by (auto simp add: read_byte_def data_write_word cout_write_word IO_CONSOLE_OUT_def
      low_byte high_byte)

text \<open>
  The amended C2 on a memory whose byte at 0xF000 is 0x5A, at the addresses 0x8000
  (both bytes stored, nothing printed), 0xF000 (the low byte 0x34 printed) and 0xEFFF
  (the high byte 0x12 printed).
\<close>

theorem write_word_little_endian_witness:
  "ucast (read_byte (write_word 0x8000 0x1234 console_seeded) 0x8000) = (0x34 :: word_t) \<and>
   ucast (read_byte (write_word 0x8000 0x1234 console_seeded) 0x8001) = (0x12 :: word_t) \<and>
   cout (write_word 0x8000 0x1234 console_seeded) = [] \<and>
   read_byte (write_word 0xF000 0x1234 console_seeded) 0xF000 = 0x5A \<and>
   cout (write_word 0xF000 0x1234 console_seeded) = [Console_char 0x34] \<and>
   read_byte (write_word 0xEFFF 0x1234 console_seeded) 0xF000 = 0x5A \<and>
   cout (write_word 0xEFFF 0x1234 console_seeded) = [Console_char 0x12]"
  using write_word_little_endian [of "0x8000" "0x1234" console_seeded]
        write_word_little_endian [of "0xF000" "0x1234" console_seeded]
        write_word_little_endian [of "0xEFFF" "0x1234" console_seeded]
  by (simp add: console_seeded_simps)

text \<open>
  C2 as stated is false: on a cleared memory, writing the word 0x1234 at 0xF000 and
  reading the byte at 0xF000 gives 0, not 0x34.
\<close>

theorem write_word_console_counterexample:
  "\<not> (ucast (read_byte (write_word 0xF000 0x1234 power_on) 0xF000) = (0x1234 :: word_t) AND 0xFF \<and>
      ucast (read_byte (write_word 0xF000 0x1234 power_on) (0xF000 + 1)) =
        drop_bit 8 (0x1234 :: word_t) AND 0xFF)"
  by (simp add: read_byte_def data_write_word IO_CONSOLE_OUT_def power_on_def)

text \<open>
  C3, as amended. The claim as stated (a read of 0xF000 after a byte write of v
  returns the prior backing byte, not v) fails when the prior backing byte is v
  itself, as on a cleared memory with v = 0. What holds: for every state and every
  byte v, a byte write of v to 0xF000 changes nothing but the console output, to which
  v is appended; every byte of the backing array, the one at 0xF000 included, is
  unchanged, so a read of any address afterwards returns the byte the array held
  before the write; the read of 0xF000 returns v exactly when the prior backing byte
  at 0xF000 was v already.
\<close>

theorem console_write_not_stored:
  "write_byte 0xF000 v m = m\<lparr>cout := cout m @ [Console_char v]\<rparr> \<and>
   data (write_byte 0xF000 v m) = data m \<and>
   read_byte (write_byte 0xF000 v m) a = data m a \<and>
   read_byte (write_byte 0xF000 v m) 0xF000 = read_byte m 0xF000 \<and>
   (read_byte (write_byte 0xF000 v m) 0xF000 = v \<longleftrightarrow> data m 0xF000 = v)"
  by (simp add: write_byte_def read_byte_def IO_CONSOLE_OUT_def)

text \<open>
  The amended C3 on a memory whose byte at 0xF000 is 0x5A: after writing 0x41 the read
  gives 0x5A, not 0x41, and 0x41 is on the console; after writing 0x5A the read gives
  0x5A.
\<close>

theorem console_write_not_stored_witness:
  "read_byte (write_byte 0xF000 0x41 console_seeded) 0xF000 = 0x5A \<and>
   read_byte (write_byte 0xF000 0x41 console_seeded) 0xF000 \<noteq> 0x41 \<and>
   read_byte (write_byte 0xF000 0x5A console_seeded) 0xF000 = 0x5A \<and>
   cout (write_byte 0xF000 0x41 console_seeded) = [Console_char 0x41]"
  using console_write_not_stored [of "0x41" console_seeded "0xF000"]
        console_write_not_stored [of "0x5A" console_seeded "0xF000"]
  by (simp add: console_seeded_simps read_byte_def)

text \<open>
  C3 as stated is false: on a cleared memory, after writing the byte 0 to 0xF000 the
  read of 0xF000 returns the prior backing byte, which is 0, the value written.
\<close>

theorem console_read_back_counterexample:
  "\<not> (read_byte (write_byte 0xF000 0 power_on) 0xF000 = read_byte power_on 0xF000 \<and>
      read_byte (write_byte 0xF000 0 power_on) 0xF000 \<noteq> 0)"
  by (simp add: write_byte_def read_byte_def IO_CONSOLE_OUT_def power_on_def)

section \<open>The ALU: flags\<close>

text \<open>
  C7. For every ALU operation and all operands a and b, the pair of the result and the
  outgoing flag word is the same for any two incoming flag words.
\<close>

theorem ALU_flag_determinism:
  "ALU_add a b f1 = ALU_add a b f2 \<and>
   ALU_sub a b f1 = ALU_sub a b f2 \<and>
   ALU_mul a b f1 = ALU_mul a b f2 \<and>
   ALU_div a b f1 = ALU_div a b f2 \<and>
   ALU_and_op a b f1 = ALU_and_op a b f2 \<and>
   ALU_or_op a b f1 = ALU_or_op a b f2 \<and>
   ALU_xor_op a b f1 = ALU_xor_op a b f2 \<and>
   ALU_not_op a f1 = ALU_not_op a f2 \<and>
   ALU_shl a b f1 = ALU_shl a b f2 \<and>
   ALU_shr a b f1 = ALU_shr a b f2 \<and>
   ALU_compare a b f1 = ALU_compare a b f2"
  unfolding ALU_add_def ALU_sub_def ALU_mul_def ALU_div_def ALU_and_op_def ALU_or_op_def
    ALU_xor_op_def ALU_not_op_def ALU_shl_def ALU_shr_def ALU_compare_def clear_flags_def
  by (intro conjI refl)

text \<open>
  C8, as amended. The claim as stated (a shift left by 0 clears all four flags) fails:
  \<open>shl\<close> sets Z and N from the result on this path too. What holds: for every word a,
  a shift left by 0 returns a unchanged, C and V are 0, Z is set exactly when a is 0
  and N is set exactly when bit 15 of a is set.
\<close>

theorem shl_by_zero:
  "fst (ALU_shl a 0 f) = a \<and>
   (snd (ALU_shl a 0 f) AND FLAG_ZERO \<noteq> 0 \<longleftrightarrow> a = 0) \<and>
   (snd (ALU_shl a 0 f) AND FLAG_NEGATIVE \<noteq> 0 \<longleftrightarrow> a AND 0x8000 \<noteq> 0) \<and>
   snd (ALU_shl a 0 f) AND FLAG_CARRY = 0 \<and>
   snd (ALU_shl a 0 f) AND FLAG_OVERFLOW = 0"
  by (simp add: ALU_shl_zero set_zero_flag_def set_negative_flag_def flag_defs)

text \<open>The amended C8 at a = 0x8000: the result is 0x8000 and N is set.\<close>

theorem shl_by_zero_witness:
  "fst (ALU_shl 0x8000 0 0xF) = 0x8000 \<and>
   snd (ALU_shl 0x8000 0 0xF) AND FLAG_ZERO = 0 \<and>
   snd (ALU_shl 0x8000 0 0xF) AND FLAG_NEGATIVE \<noteq> 0"
  using shl_by_zero [of "0x8000" "0xF"]
  by simp

text \<open>C8 as stated is false: shifting 0 left by 0 returns 0 with Z set, so FLAGS is 1.\<close>

theorem shl_by_zero_counterexample:
  "\<not> (fst (ALU_shl 0 0 0) = 0 \<and> snd (ALU_shl 0 0 0) = 0)"
  by (simp add: ALU_shl_zero set_zero_flag_def set_negative_flag_def flag_defs)

section \<open>The register accessor\<close>

text \<open>
  C10. For every integer index outside 0..7 \<open>get_register\<close> returns 0; for an index in
  0..7 it returns the value stored in that register.
\<close>

theorem get_register_total:
  "(n < 0 \<or> 7 < n \<longrightarrow> get_register s n = 0) \<and>
   (0 \<le> n \<and> n \<le> 7 \<longrightarrow> get_register s n = registers s (word_of_int n)) \<and>
   get_register s (uint i) = registers s i"
proof -
  have "uint i < 8" using uint_bounded [of i] by simp
  then show ?thesis by (auto simp add: get_register_def NUM_REGISTERS_def)
qed

text \<open>C10 at the indices 8, -1 and 3 of a machine whose register 3 holds 0x00AB.\<close>

theorem get_register_total_witness:
  "get_register (set_reg 3 0xAB power_on) 8 = 0 \<and>
   get_register (set_reg 3 0xAB power_on) (- 1) = 0 \<and>
   get_register (set_reg 3 0xAB power_on) 3 = 0xAB"
  using get_register_total [of 8 "set_reg 3 0xAB power_on" 0]
        get_register_total [of "- 1" "set_reg 3 0xAB power_on" 0]
        get_register_total [of 3 "set_reg 3 0xAB power_on" 0]
  by (simp add: set_reg_def)

section \<open>Division by zero\<close>

text \<open>
  C1. The claim: on a zero divisor the result is 0xFFFF, V is set, execution continues,
  and Z and N are set from the sentinel 0xFFFF, so that N = 1. This is what the ALU's
  own header describes (every operation updates the flags from its result, N being set
  when bit 15 of the result is set) and what the other paths do: the non-zero branch
  of \<open>div\<close> sets Z and N from the word it returns, and the early returns of \<open>shl\<close> and
  \<open>shr\<close> still set the zero flag from theirs. The zero-divisor branch of \<open>div\<close> misses
  it: it sets V and returns 0xFFFF before the zero and negative flags are computed.
  The theorem records what the code does there: for every dividend and every incoming
  flag word the result is 0xFFFF and the flag word is exactly V, so N is 0 although
  bit 15 of the result is set; a \<open>DIV\<close> instruction whose divisor register holds 0
  completes its step with the CPU not halted, PC advanced by 2, 0xFFFF in the
  destination register and FLAGS = V.
\<close>

theorem div_by_zero:
  "ALU_div a 0 f = (0xFFFF, FLAG_OVERFLOW) \<and>
   snd (ALU_div a 0 f) AND FLAG_OVERFLOW \<noteq> 0 \<and>
   snd (ALU_div a 0 f) AND FLAG_ZERO = 0 \<and>
   snd (ALU_div a 0 f) AND FLAG_NEGATIVE = 0 \<and>
   snd (ALU_div a 0 f) AND FLAG_CARRY = 0 \<and>
   (\<not> halted s \<and> optab (GET_OPCODE (read_word s (pc s))) = Some OP_DIV \<and>
    GET_RT (read_word s (pc s)) < 8 \<and> reg s (GET_RT (read_word s (pc s))) = 0 \<longrightarrow>
      (\<exists>s'. step optab s = Inr s' \<and> \<not> halted s' \<and> pc s' = pc s + 2 \<and>
            reg s' (GET_RD (read_word s (pc s))) = 0xFFFF \<and> flags s' = FLAG_OVERFLOW))"
  by (simp add: ALU_div_zero flag_defs step_running exec_DIV print_flags_def
      print_registers_def alu_store_simps reg_frame)

text \<open>
  The code at the failing input of C1, the dividend 0x1234, and on the program
  \<open>DIV R0, R1, R2\<close> with R1 = 0x1234 and R2 = 0.
\<close>

theorem div_by_zero_witness:
  "ALU_div 0x1234 0 0 = (0xFFFF, 0x0008) \<and>
   (\<exists>s'. step sample_optab div_prog = Inr s' \<and> \<not> halted s' \<and> pc s' = 2 \<and>
         reg s' 0 = 0xFFFF \<and> flags s' = 0x0008)"
  using div_by_zero [of "0x1234" 0 div_prog sample_optab]
  by (simp add: div_prog_simps decode_simps sample_optab_simps flag_defs)

text \<open>
  The divergence at \<open>div(0x1234, 0)\<close>: the returned word has bit 15 set and the flag
  word is 0x0008 with N clear, where setting Z and N from the returned word, as the
  claim says, gives 0x000C.
\<close>

theorem div_by_zero_negative_flag_clear:
  "fst (ALU_div 0x1234 0 0) = 0xFFFF \<and>
   fst (ALU_div 0x1234 0 0) AND 0x8000 \<noteq> 0 \<and>
   snd (ALU_div 0x1234 0 0) = 0x0008 \<and>
   snd (ALU_div 0x1234 0 0) AND FLAG_NEGATIVE = 0 \<and>
   set_negative_flag 0xFFFF (set_zero_flag 0xFFFF FLAG_OVERFLOW) = 0x000C"
  by (simp add: ALU_div_zero flag_defs set_negative_flag_def set_zero_flag_def)

section \<open>Halting\<close>

text \<open>
  C5. Executing \<open>HALT\<close> on a running CPU sets the halted state, with PC advanced by 2
  past the instruction, the instruction counter incremented, and registers, SP, FLAGS
  and memory unchanged; with \<open>HALT\<close> at address 0x0000, one step from reset yields
  halted, instruction counter 1 and PC = 0x0002; and a step of a halted CPU changes
  nothing at all.
\<close>

theorem halt_step:
  "(\<not> halted s \<and> optab (GET_OPCODE (read_word s (pc s))) = Some OP_HALT \<longrightarrow>
      (\<exists>s'. step optab s = Inr s' \<and> halted s' \<and> pc s' = pc s + 2 \<and>
            instruction_count s' = instruction_count s + 1 \<and>
            registers s' = registers s \<and> sp s' = sp s \<and> flags s' = flags s \<and>
            data s' = data s)) \<and>
   (optab (GET_OPCODE (read_word (reset s) 0x0000)) = Some OP_HALT \<longrightarrow>
      (\<exists>s'. step optab (reset s) = Inr s' \<and> halted s' \<and> instruction_count s' = 1 \<and>
            pc s' = 0x0002)) \<and>
   (halted s \<longrightarrow> step optab s = Inr s)"
proof (intro conjI impI)
  assume "\<not> halted s \<and> optab (GET_OPCODE (read_word s (pc s))) = Some OP_HALT"
  then show "\<exists>s'. step optab s = Inr s' \<and> halted s' \<and> pc s' = pc s + 2 \<and>
            instruction_count s' = instruction_count s + 1 \<and>
            registers s' = registers s \<and> sp s' = sp s \<and> flags s' = flags s \<and>
            data s' = data s"
    by (simp add: step_running exec_HALT print_flags_def print_registers_def)
next
  assume "optab (GET_OPCODE (read_word (reset s) 0x0000)) = Some OP_HALT"
  then show "\<exists>s'. step optab (reset s) = Inr s' \<and> halted s' \<and> instruction_count s' = 1 \<and>
            pc s' = 0x0002"
    by (simp add: step_running exec_HALT print_flags_def print_registers_def reset_def
        PROGRAM_START_def)
next
  assume "halted s"
  then show "step optab s = Inr s"
    by (simp add: step_def)
qed

text \<open>C5 on the program \<open>HALT\<close>: one step halts it, and a second step changes nothing.\<close>

theorem halt_step_witness:
  "\<exists>s'. step sample_optab halt_prog = Inr s' \<and> halted s' \<and> instruction_count s' = 1 \<and>
        pc s' = 0x0002 \<and> step sample_optab s' = Inr s'"
proof -
  from halt_step [of halt_prog sample_optab] obtain s' where
    s': "step sample_optab halt_prog = Inr s'" "halted s'" "instruction_count s' = 1"
        "pc s' = 0x0002"
    by (auto simp add: halt_prog_simps decode_simps sample_optab_simps)
  from halt_step [of s' sample_optab] s'(2) have "step sample_optab s' = Inr s'"
    by simp
  with s' show ?thesis by blast
qed

section \<open>The unknown-opcode trap\<close>

text \<open>
  C9. Executing an instruction whose opcode has no case in the switch completes the
  step without a fault: the CPU is halted, PC is advanced by 2, the instruction is
  counted and logged once on the error stream, and registers, SP, FLAGS and memory
  are unchanged.
\<close>

theorem unknown_opcode_trap:
  "\<not> halted s \<and> optab (GET_OPCODE (read_word s (pc s))) = None \<longrightarrow>
      (\<exists>s'. step optab s = Inr s' \<and> halted s' \<and> pc s' = pc s + 2 \<and>
            registers s' = registers s \<and> sp s' = sp s \<and> flags s' = flags s \<and>
            data s' = data s \<and> instruction_count s' = instruction_count s + 1 \<and>
            cerr s' = cerr s @ [GET_OPCODE (read_word s (pc s))])"
  by (simp add: step_running exec_unknown print_flags_def print_registers_def)

text \<open>C9 on the instruction word 0xFC00, whose opcode field is 63.\<close>

theorem unknown_opcode_trap_witness:
  "\<exists>s'. step sample_optab unknown_prog = Inr s' \<and> halted s' \<and> pc s' = 0x0002 \<and>
        cerr s' = [63]"
  using unknown_opcode_trap [of unknown_prog sample_optab]
  by (auto simp add: unknown_prog_simps decode_simps sample_optab_simps)

section \<open>Conditional jumps\<close>

text \<open>
  C6. For each of \<open>JZ\<close>, \<open>JNZ\<close>, \<open>JC\<close>, \<open>JNC\<close> and \<open>JN\<close>, with its predicate on the
  current FLAGS (Z set, Z clear, C set, C clear, N set): when the predicate is false
  the step leaves PC 4 bytes past the start of the instruction, when it is true PC is
  the trailing address word; in both cases registers, flags, SP and memory are unchanged
  and the CPU keeps running.
\<close>

theorem conditional_jump:
  assumes "\<not> halted s"
    and "optab (GET_OPCODE (read_word s (pc s))) = Some op"
    and "(op, taken) \<in> {(OP_JZ, flags s AND FLAG_ZERO \<noteq> 0),
                         (OP_JNZ, flags s AND FLAG_ZERO = 0),
                         (OP_JC, flags s AND FLAG_CARRY \<noteq> 0),
                         (OP_JNC, flags s AND FLAG_CARRY = 0),
                         (OP_JN, flags s AND FLAG_NEGATIVE \<noteq> 0)}"
  shows "\<exists>s'. step optab s = Inr s' \<and>
            pc s' = (if taken then read_word s (pc s + 2) else pc s + 4) \<and>
            registers s' = registers s \<and> flags s' = flags s \<and> data s' = data s \<and>
            sp s' = sp s \<and> \<not> halted s'"
proof -
  note unfold = step_running exec_cond_jumps cond_jump_def Let_def print_flags_def
    print_registers_def
  from assms(3) consider
      "op = OP_JZ" "taken = (flags s AND FLAG_ZERO \<noteq> 0)"
    | "op = OP_JNZ" "taken = (flags s AND FLAG_ZERO = 0)"
    | "op = OP_JC" "taken = (flags s AND FLAG_CARRY \<noteq> 0)"
    | "op = OP_JNC" "taken = (flags s AND FLAG_CARRY = 0)"
    | "op = OP_JN" "taken = (flags s AND FLAG_NEGATIVE \<noteq> 0)"
    by auto
  then show ?thesis
  proof cases
    case 1
    with assms(1,2) show ?thesis by (simp add: unfold)
  next
    case 2
    with assms(1,2) show ?thesis by (simp add: unfold)
  next
    case 3
    with assms(1,2) show ?thesis by (simp add: unfold)
  next
    case 4
    with assms(1,2) show ?thesis by (simp add: unfold)
  next
    case 5
    with assms(1,2) show ?thesis by (simp add: unfold)
  qed
qed

text \<open>
  C6 on the program \<open>JZ 0x0140\<close>: with Z clear the step falls through to 0x0004, with
  Z set it jumps to 0x0140.
\<close>

theorem conditional_jump_witness:
  "(\<exists>s'. step sample_optab jz_prog = Inr s' \<and> pc s' = 0x0004 \<and> \<not> halted s') \<and>
   (\<exists>s'. step sample_optab (jz_prog\<lparr>flags := FLAG_ZERO\<rparr>) = Inr s' \<and> pc s' = 0x0140)"
proof -
  have h1: "\<not> halted jz_prog"
    and h2: "sample_optab (GET_OPCODE (read_word jz_prog (pc jz_prog))) = Some OP_JZ"
    and h3: "(OP_JZ, False) \<in> {(OP_JZ, flags jz_prog AND FLAG_ZERO \<noteq> 0),
                         (OP_JNZ, flags jz_prog AND FLAG_ZERO = 0),
                         (OP_JC, flags jz_prog AND FLAG_CARRY \<noteq> 0),
                         (OP_JNC, flags jz_prog AND FLAG_CARRY = 0),
                         (OP_JN, flags jz_prog AND FLAG_NEGATIVE \<noteq> 0)}"
    by (simp_all add: jz_prog_simps decode_simps sample_optab_simps)
  let ?t = "jz_prog\<lparr>flags := FLAG_ZERO\<rparr>"
  have k1: "\<not> halted ?t"
    and k2: "sample_optab (GET_OPCODE (read_word ?t (pc ?t))) = Some OP_JZ"
    and k3: "(OP_JZ, True) \<in> {(OP_JZ, flags ?t AND FLAG_ZERO \<noteq> 0),
                         (OP_JNZ, flags ?t AND FLAG_ZERO = 0),
                         (OP_JC, flags ?t AND FLAG_CARRY \<noteq> 0),
                         (OP_JNC, flags ?t AND FLAG_CARRY = 0),
                         (OP_JN, flags ?t AND FLAG_NEGATIVE \<noteq> 0)}"
    by (simp_all add: jz_prog_simps decode_simps sample_optab_simps flag_defs)
  from conditional_jump [where s = jz_prog and optab = sample_optab and op = OP_JZ
        and taken = False, OF h1 h2 h3]
    conditional_jump [where s = ?t and optab = sample_optab and op = OP_JZ
        and taken = True, OF k1 k2 k3]
  show ?thesis
    by (auto simp add: jz_prog_simps)
qed

section \<open>Call and return\<close>

text \<open>
  C4, as amended. The claim as stated (after \<open>CALL\<close> the word at the new SP is the
  return address, and \<open>RET\<close> comes back to it) fails when a byte of the pushed word
  falls on the console port 0xF000, which \<open>write_byte\<close> does not store. What holds:
  executing \<open>CALL\<close> at address p with trailing address word t decreases SP by 2 and sets
  PC to t; provided the new SP is neither 0xF000 nor 0xEFFF, the word at the new SP is
  p + 4. A subsequent \<open>RET\<close>, executed with the same SP and the same word at SP as the
  \<open>CALL\<close> left them, restores SP to its value before the \<open>CALL\<close> and sets PC to
  the word at SP, which under the same proviso is p + 4.
\<close>

theorem call_ret_round_trip:
  assumes "\<not> halted s"
    and "optab (GET_OPCODE (read_word s (pc s))) = Some OP_CALL"
  shows "\<exists>s1. step optab s = Inr s1 \<and> sp s1 = sp s - 2 \<and> pc s1 = read_word s (pc s + 2) \<and>
           (sp s - 2 \<noteq> 0xF000 \<and> sp s - 2 \<noteq> 0xEFFF \<longrightarrow> read_word s1 (sp s1) = pc s + 4) \<and>
           (\<forall>s2. \<not> halted s2 \<and> optab (GET_OPCODE (read_word s2 (pc s2))) = Some OP_RET \<and>
                 sp s2 = sp s1 \<and> read_word s2 (sp s2) = read_word s1 (sp s1) \<longrightarrow>
                 (\<exists>s3. step optab s2 = Inr s3 \<and> sp s3 = sp s \<and>
                       pc s3 = read_word s1 (sp s1) \<and>
                       (sp s - 2 \<noteq> 0xF000 \<and> sp s - 2 \<noteq> 0xEFFF \<longrightarrow> pc s3 = pc s + 4)))"
proof -
  from step_CALL [of s optab, OF assms] obtain s1 where s1:
    "step optab s = Inr s1" "sp s1 = sp s - 2" "pc s1 = read_word s (pc s + 2)"
    "data s1 = data (write_word (sp s - 2) (pc s + 4) s)"
    by blast
  have w: "read_word s1 (sp s1) = pc s + 4"
    if ok: "sp s - 2 \<noteq> 0xF000 \<and> sp s - 2 \<noteq> 0xEFFF"
  proof -
    from ok have "sp s - 2 + 1 \<noteq> IO_CONSOLE_OUT"
      by (auto simp add: IO_CONSOLE_OUT_def)
    with ok have "read_word (write_word (sp s - 2) (pc s + 4) s) (sp s - 2) = pc s + 4"
      by (simp add: read_word_write_word IO_CONSOLE_OUT_def)
    with s1(2) show ?thesis
      by (simp add: read_word_cong [OF s1(4)])
  qed
  have r: "\<exists>s3. step optab s2 = Inr s3 \<and> sp s3 = sp s \<and> pc s3 = read_word s1 (sp s1) \<and>
             (sp s - 2 \<noteq> 0xF000 \<and> sp s - 2 \<noteq> 0xEFFF \<longrightarrow> pc s3 = pc s + 4)"
    if "\<not> halted s2 \<and> optab (GET_OPCODE (read_word s2 (pc s2))) = Some OP_RET \<and>
        sp s2 = sp s1 \<and> read_word s2 (sp s2) = read_word s1 (sp s1)" for s2
  proof -
    from that step_RET [of s2 optab] obtain s3 where
      "step optab s2 = Inr s3" "sp s3 = sp s2 + 2" "pc s3 = read_word s2 (sp s2)"
      by blast
    with that w s1(2) show ?thesis by auto
  qed
  from s1 w r show ?thesis by blast
qed

text \<open>
  The amended C4 on the program \<open>CALL 0x0010\<close> at 0x0000 with \<open>RET\<close> at 0x0010, from
  SP = 0xFFFF: the \<open>CALL\<close> pushes 0x0004 at 0xFFFD and the \<open>RET\<close> comes back to 0x0004
  with SP = 0xFFFF.
\<close>

theorem call_ret_round_trip_witness:
  "step sample_optab call_prog = Inr call_prog_after \<and>
   sp call_prog_after = 0xFFFD \<and> read_word call_prog_after 0xFFFD = 0x0004 \<and>
   pc call_prog_after = 0x0010 \<and>
   (\<exists>s3. step sample_optab call_prog_after = Inr s3 \<and> pc s3 = 0x0004 \<and> sp s3 = 0xFFFF)"
proof -
  have h: "\<not> halted call_prog"
      "sample_optab (GET_OPCODE (read_word call_prog (pc call_prog))) = Some OP_CALL"
    by (simp_all add: call_prog_simps decode_simps sample_optab_simps)
  have k: "\<not> halted call_prog_after \<and>
      sample_optab (GET_OPCODE (read_word call_prog_after (pc call_prog_after))) = Some OP_RET \<and>
      sp call_prog_after = sp call_prog_after \<and>
      read_word call_prog_after (sp call_prog_after) = read_word call_prog_after (sp call_prog_after)"
    by (simp add: call_prog_after_simps decode_simps sample_optab_simps)
  from call_ret_round_trip [of call_prog sample_optab, OF h]
  have "\<forall>s2. \<not> halted s2 \<and> sample_optab (GET_OPCODE (read_word s2 (pc s2))) = Some OP_RET \<and>
             sp s2 = sp call_prog_after \<and>
             read_word s2 (sp s2) = read_word call_prog_after (sp call_prog_after) \<longrightarrow>
             (\<exists>s3. step sample_optab s2 = Inr s3 \<and> sp s3 = sp call_prog \<and>
                   (sp call_prog - 2 \<noteq> 0xF000 \<and> sp call_prog - 2 \<noteq> 0xEFFF \<longrightarrow>
                      pc s3 = pc call_prog + 4))"
    by (auto simp add: step_call_prog)
  then have "\<exists>s3. step sample_optab call_prog_after = Inr s3 \<and> sp s3 = sp call_prog \<and>
                   (sp call_prog - 2 \<noteq> 0xF000 \<and> sp call_prog - 2 \<noteq> 0xEFFF \<longrightarrow>
                      pc s3 = pc call_prog + 4)"
    using k by blast
  then show ?thesis
    by (auto simp add: step_call_prog call_prog_simps call_prog_after_simps)
qed

text \<open>
  C4 as stated is false: a \<open>CALL\<close> at 0x0100 executed with SP = 0xF001 leaves SP at
  0xEFFF, the high byte of the return address 0x0104 goes to the console, and the word
  at the new SP is 0x0004.
\<close>

theorem call_console_counterexample:
  "step sample_optab trap_call = Inr trap_call_after \<and>
   sp trap_call_after = sp trap_call - 2 \<and>
   read_word trap_call_after (sp trap_call_after) = 0x0004 \<and>
   pc trap_call + 4 = 0x0104 \<and>
   read_word trap_call_after (sp trap_call_after) \<noteq> pc trap_call + 4"
  by (simp add: step_trap_call trap_call_simps trap_call_after_simps)

end
